theory Spec2Isabelle
  imports Main
begin

section \<open>The name registry of \<^verbatim>\<open>nevergrad/common/decorators.py\<close>\<close>

text \<open>
  The class \<^verbatim>\<open>Registry\<close> is a Python \<^verbatim>\<open>dict\<close> (the entries, from names to
  registered objects) with one more dictionary, \<^verbatim>\<open>_information\<close>, from names to
  metadata dictionaries. Its methods mutate both in place and raise exceptions. The
  embedding passes the state explicitly and returns, with every result, the state the
  call leaves behind: a Python exception does not undo the assignments made before it,
  so a raising call returns its error together with the state reached at the raise.
\<close>

subsection \<open>Python values\<close>

text \<open>
  A metadata dictionary is a mutable object that the registry holds by reference and
  hands out by reference, so a dictionary value is an address into a store of
  dictionaries. The other values are immutable here. A \<open>PyObject i nm cls\<close> is any
  other object (a function, a class, an instance): \<open>i\<close> is its identity, \<open>nm\<close> its
  \<^verbatim>\<open>__name__\<close> attribute when it has one, \<open>cls\<close> the name of its class.
\<close>

type_synonym addr = nat

datatype pyval =
    PyNone
  | PyInt int
  | PyStr string
  | PyDict addr
  | PyObject nat "string option" string

type_synonym pydict = "pyval \<rightharpoonup> pyval"

text \<open>\<^verbatim>\<open>getattr(obj, "__name__")\<close>, with \<open>None\<close> where the attribute is missing.\<close>

fun getattr_name :: "pyval \<Rightarrow> string option" where
  "getattr_name (PyObject i nm cls) = nm"
| "getattr_name v = None"

text \<open>\<^verbatim>\<open>hasattr(obj, "__name__")\<close>\<close>

definition hasattr_name :: "pyval \<Rightarrow> bool" where
  "hasattr_name obj = (getattr_name obj \<noteq> None)"

text \<open>\<^verbatim>\<open>obj.__class__.__name__\<close>\<close>

fun class_name :: "pyval \<Rightarrow> string" where
  "class_name PyNone = ''NoneType''"
| "class_name (PyInt n) = ''int''"
| "class_name (PyStr s) = ''str''"
| "class_name (PyDict a) = ''dict''"
| "class_name (PyObject i nm cls) = cls"

text \<open>\<^verbatim>\<open>isinstance(info, dict)\<close>\<close>

fun isinstance_dict :: "pyval \<Rightarrow> bool" where
  "isinstance_dict (PyDict a) = True"
| "isinstance_dict v = False"

subsection \<open>Exceptions\<close>

text \<open>
  The three exceptions the methods raise, under their Python classes:
  \<open>RuntimeError\<close> with its message is the name collision of \<^verbatim>\<open>register_name\<close>,
  \<open>AssertionError\<close> is the failed \<^verbatim>\<open>assert isinstance(info, dict)\<close>, and
  \<open>ValueError\<close> with its message is the unknown name of \<^verbatim>\<open>get_info\<close>.
\<close>

datatype error =
    RuntimeError string
  | AssertionError
  | ValueError string

definition collision_msg :: "string \<Rightarrow> string" where
  \<open>collision_msg name = ''Encountered a name collision "'' @ name @ ''"''\<close>

definition not_registered_msg :: "string \<Rightarrow> string" where
  \<open>not_registered_msg name = ''"'' @ name @ ''" is not registered.''\<close>

subsection \<open>The state\<close>

text \<open>
  \<open>entries\<close> is the registry as a dictionary (\<^verbatim>\<open>self\<close>), \<open>information\<close> is
  \<^verbatim>\<open>self._information\<close>, and \<open>store\<close> holds the dictionary objects: the dictionary
  at address \<open>a\<close> is \<open>store s ! a\<close>. A new dictionary is appended, so its address
  \<open>length (store s)\<close> is fresh by construction.
\<close>

record state =
  entries :: "string \<rightharpoonup> pyval"
  information :: "string \<rightharpoonup> pyval"
  store :: "pydict list"

text \<open>\<^verbatim>\<open>Registry()\<close>: both dictionaries empty.\<close>

definition init :: "state" where
  "init = \<lparr>entries = Map.empty, information = Map.empty, store = []\<rparr>"

text \<open>
  Evaluating a dictionary display such as \<^verbatim>\<open>{}\<close> or \<^verbatim>\<open>{"k": v}\<close>, or collecting
  keyword arguments into \<^verbatim>\<open>**info\<close>: a new dictionary object with the given content.
\<close>

definition new_dict :: "state \<Rightarrow> pydict \<Rightarrow> pyval \<times> state" where
  "new_dict s d = (PyDict (length (store s)), s\<lparr>store := store s @ [d]\<rparr>)"

text \<open>Reading the dictionary behind an address; \<open>None\<close> for an address never allocated.\<close>

definition dict_at :: "state \<Rightarrow> addr \<Rightarrow> pydict option" where
  "dict_at s a = (if a < length (store s) then Some (store s ! a) else None)"

text \<open>
  What a caller does with a dictionary it holds: \<^verbatim>\<open>d[k] = v\<close>, on the object at
  address \<open>a\<close>.
\<close>

definition dict_setitem :: "state \<Rightarrow> addr \<Rightarrow> pyval \<Rightarrow> pyval \<Rightarrow> state" where
  "dict_setitem s a k v =
     (if a < length (store s) then s\<lparr>store := (store s)[a := (store s ! a)(k \<mapsto> v)]\<rparr> else s)"

subsection \<open>The methods\<close>

text \<open>
  \<^verbatim>\<open>register_name(self, name, obj, info=None)\<close>. The collision test comes first and
  raises before anything is written. Then the entry is written, and only after that
  is \<open>info\<close> looked at: the assertion on its type runs with the entry already stored.
  (The model is of Python run without \<^verbatim>\<open>-O\<close>, where \<^verbatim>\<open>assert\<close> statements are
  executed.)
\<close>

definition register_name :: "state \<Rightarrow> string \<Rightarrow> pyval \<Rightarrow> pyval \<Rightarrow> (error + unit) \<times> state" where
  "register_name s name obj info =
     (if entries s name \<noteq> None then (Inl (RuntimeError (collision_msg name)), s)
      else
        let s1 = s\<lparr>entries := (entries s)(name \<mapsto> obj)\<rparr> in
        if info \<noteq> PyNone then
          (if \<not> isinstance_dict info then (Inl AssertionError, s1)
           else (Inr (), s1\<lparr>information := (information s1)(name \<mapsto> info)\<rparr>))
        else (Inr (), s1))"

text \<open>
  The name \<^verbatim>\<open>register\<close> derives:
  \<^verbatim>\<open>obj.__name__ if hasattr(obj, "__name__") else obj.__class__.__name__\<close>.
\<close>

definition obj_name :: "pyval \<Rightarrow> string" where
  "obj_name obj = (if hasattr_name obj then the (getattr_name obj) else class_name obj)"

text \<open>\<^verbatim>\<open>register(self, obj, info=None)\<close>: returns \<open>obj\<close> when \<^verbatim>\<open>register_name\<close> returns.\<close>

definition register :: "state \<Rightarrow> pyval \<Rightarrow> pyval \<Rightarrow> (error + pyval) \<times> state" where
  "register s obj info =
     (let name = obj_name obj in
      case register_name s name obj info of
        (Inl e, s') \<Rightarrow> (Inl e, s')
      | (Inr u, s') \<Rightarrow> (Inr obj, s'))"

text \<open>\<^verbatim>\<open>unregister(self, name)\<close>: deletes the entry when there is one.\<close>

definition unregister :: "state \<Rightarrow> string \<Rightarrow> (error + unit) \<times> state" where
  "unregister s name =
     (if entries s name \<noteq> None then (Inr (), s\<lparr>entries := (entries s)(name := None)\<rparr>)
      else (Inr (), s))"

text \<open>
  \<^verbatim>\<open>register_with_info(self, **info)\<close>: the keyword arguments are collected into one
  new dictionary, and \<^verbatim>\<open>functools.partial(self.register, info=info)\<close> is the function
  that, called later on an object, calls \<^verbatim>\<open>register\<close> with that same dictionary.
\<close>

definition kwargs_dict :: "(string \<times> pyval) list \<Rightarrow> pydict" where
  "kwargs_dict kw = map_of (map (\<lambda>(k, v). (PyStr k, v)) kw)"

definition register_with_info ::
  "state \<Rightarrow> (string \<times> pyval) list \<Rightarrow> (state \<Rightarrow> pyval \<Rightarrow> (error + pyval) \<times> state) \<times> state" where
  "register_with_info s kw =
     (let (info, s1) = new_dict s (kwargs_dict kw) in
      ((\<lambda>s' obj. register s' obj info), s1))"

text \<open>
  \<^verbatim>\<open>get_info(self, name)\<close>. The argument \<^verbatim>\<open>{}\<close> of \<^verbatim>\<open>setdefault\<close> is evaluated on
  every call that gets past the test, so a new empty dictionary is made each time;
  \<^verbatim>\<open>setdefault\<close> stores it only when \<open>name\<close> has no record yet, and returns the record.
\<close>

definition get_info :: "state \<Rightarrow> string \<Rightarrow> (error + pyval) \<times> state" where
  "get_info s name =
     (if entries s name = None then (Inl (ValueError (not_registered_msg name)), s)
      else
        let (fresh, s1) = new_dict s Map.empty in
        case information s1 name of
          Some d \<Rightarrow> (Inr d, s1)
        | None \<Rightarrow> (Inr fresh, s1\<lparr>information := (information s1)(name \<mapsto> fresh)\<rparr>))"

subsection \<open>Sequences of calls\<close>

text \<open>
  A client of the registry makes one call after another, catching what is raised and
  going on from the state the call left. \<open>SetItem a k v\<close> is the client writing
  \<^verbatim>\<open>d[k] = v\<close> into a dictionary it holds.
\<close>

datatype call =
    Register pyval pyval
  | RegisterName string pyval pyval
  | Unregister string
  | GetInfo string
  | SetItem addr pyval pyval

fun call_step :: "state \<Rightarrow> call \<Rightarrow> state" where
  "call_step s (Register obj info) = snd (register s obj info)"
| "call_step s (RegisterName name obj info) = snd (register_name s name obj info)"
| "call_step s (Unregister name) = snd (unregister s name)"
| "call_step s (GetInfo name) = snd (get_info s name)"
| "call_step s (SetItem a k v) = dict_setitem s a k v"

definition run :: "state \<Rightarrow> call list \<Rightarrow> state" where
  "run s cs = foldl call_step s cs"

text \<open>
  The calls that supply or ask for metadata of the name \<open>n\<close>: a registration under
  \<open>n\<close> that passes an \<open>info\<close>, and \<^verbatim>\<open>get_info(n)\<close>.
\<close>

fun concerns_info :: "string \<Rightarrow> call \<Rightarrow> bool" where
  "concerns_info n (Register obj info) = (obj_name obj = n \<and> info \<noteq> PyNone)"
| "concerns_info n (RegisterName name obj info) = (name = n \<and> info \<noteq> PyNone)"
| "concerns_info n (GetInfo name) = (name = n)"
| "concerns_info n c = False"

subsection \<open>Example objects and registries\<close>

text \<open>A function named \<^verbatim>\<open>foo\<close>, and two instances of one class \<^verbatim>\<open>Optimizer\<close>.\<close>

definition foo_fn :: pyval where
  "foo_fn = PyObject 1 (Some ''foo'') ''function''"

definition opt1 :: pyval where
  "opt1 = PyObject 2 None ''Optimizer''"

definition opt2 :: pyval where
  "opt2 = PyObject 3 None ''Optimizer''"

text \<open>The registry after \<^verbatim>\<open>r = Registry(); r.register_name("foo", 42)\<close>.\<close>

definition reg_foo :: state where
  "reg_foo = \<lparr>entries = [''foo'' \<mapsto> PyInt 42], information = Map.empty, store = []\<rparr>"

text \<open>
  The registry after \<^verbatim>\<open>r = Registry(); r.register_name("foo", 42, info={"priority": 1})\<close>.
\<close>

definition reg_info :: state where
  "reg_info = \<lparr>entries = [''foo'' \<mapsto> PyInt 42], information = [''foo'' \<mapsto> PyDict 0],
     store = [[PyStr ''priority'' \<mapsto> PyInt 1]]\<rparr>"


text \<open>A registry where the name \<^verbatim>\<open>Optimizer\<close> is taken.\<close>

definition reg_opt :: state where
  "reg_opt = \<lparr>entries = [''Optimizer'' \<mapsto> PyInt 7], information = Map.empty, store = []\<rparr>"

section \<open>Properties\<close>

subsection \<open>Auxiliary facts\<close>

text \<open>The derived name is the \<^verbatim>\<open>__name__\<close> attribute when there is one, the class name otherwise.\<close>

lemma obj_name_cases:
  "obj_name obj = (case getattr_name obj of Some n \<Rightarrow> n | None \<Rightarrow> class_name obj)"
  by (simp add: obj_name_def hasattr_name_def split: option.splits)

lemma kwargs_dict_single: "kwargs_dict [(k, v)] = [PyStr k \<mapsto> v]"
  by (simp add: kwargs_dict_def)

text \<open>
  Calling the function that \<^verbatim>\<open>register_with_info\<close> returns, right away: the dictionary
  of the keyword arguments sits at the next address and \<^verbatim>\<open>register\<close> receives it.
\<close>

lemma register_with_info_apply:
  "(case register_with_info s kw of (dec, s1) \<Rightarrow> dec s1 obj)
   = register (s\<lparr>store := store s @ [kwargs_dict kw]\<rparr>) obj (PyDict (length (store s)))"
  by (simp add: register_with_info_def new_dict_def)

lemma register_dict_fresh:
  assumes "entries s (obj_name obj) = None"
  shows "register s obj (PyDict a)
         = (Inr obj, s\<lparr>entries := (entries s)(obj_name obj \<mapsto> obj),
                        information := (information s)(obj_name obj \<mapsto> PyDict a)\<rparr>)"
  using assms by (simp add: register_def register_name_def Let_def)

text \<open>\<^verbatim>\<open>get_info\<close> on a registered name, with and without a record in \<open>information\<close>.\<close>

lemma get_info_recorded:
  assumes "entries s n \<noteq> None" and "information s n = Some d"
  shows "get_info s n = (Inr d, s\<lparr>store := store s @ [Map.empty]\<rparr>)"
  using assms by (simp add: get_info_def new_dict_def)


text \<open>
  Where the records of \<open>information\<close> come from: a call that neither supplies nor
  asks for metadata of \<open>n\<close> leaves the record of \<open>n\<close> alone, and so does any
  sequence of such calls. In particular a registry that started empty has no record
  for a name for which no metadata was ever supplied or asked. A \<^verbatim>\<open>get_info(n)\<close>
  does leave a record, and \<^verbatim>\<open>unregister\<close> does not remove it.
\<close>

lemma call_step_information:
  "\<not> concerns_info n c \<Longrightarrow> information (call_step s c) n = information s n"
proof (cases c)
  case (Register obj info)
  assume "\<not> concerns_info n c"
  with Register show ?thesis
    by (auto simp add: register_def register_name_def Let_def)
next
  case (RegisterName name obj info)
  assume "\<not> concerns_info n c"
  with RegisterName show ?thesis
    by (auto simp add: register_name_def Let_def)
next
  case (Unregister name)
  then show ?thesis by (simp add: unregister_def)
next
  case (GetInfo name)
  assume "\<not> concerns_info n c"
  with GetInfo show ?thesis
    by (auto simp add: get_info_def new_dict_def split: option.splits)
next
  case (SetItem a k v)
  then show ?thesis by (simp add: dict_setitem_def)
qed

lemma run_information:
  "list_all (\<lambda>c. \<not> concerns_info n c) cs \<Longrightarrow> information (run s cs) n = information s n"
  unfolding run_def
  by (induction cs arbitrary: s) (simp_all add: call_step_information)

lemma run_init_no_record:
  "list_all (\<lambda>c. \<not> concerns_info n c) cs \<Longrightarrow> information (run init cs) n = None"
  by (simp add: run_information init_def)

subsection \<open>Registering\<close>

text \<open>
  Claim C1, amended. For every object \<open>obj\<close> whose derived name (its \<^verbatim>\<open>__name__\<close>
  attribute if it has one, otherwise the name of its class) is not yet a key of
  \<open>entries\<close>, \<^verbatim>\<open>register(obj)\<close> returns \<open>obj\<close> itself and stores \<open>obj\<close> under that
  name: a lookup of the name afterwards yields \<open>obj\<close>, and nothing else in the state
  changes. The condition on the name is needed: see the counterexample below.
\<close>

theorem register_fresh_name:
  assumes "entries s (obj_name obj) = None"
  shows "fst (register s obj PyNone) = Inr obj
       \<and> entries (snd (register s obj PyNone)) (obj_name obj) = Some obj
       \<and> snd (register s obj PyNone) = s\<lparr>entries := (entries s)(obj_name obj \<mapsto> obj)\<rparr>
       \<and> obj_name obj = (case getattr_name obj of Some n \<Rightarrow> n | None \<Rightarrow> class_name obj)"
  using assms by (simp add: register_def register_name_def obj_name_cases)

theorem register_fresh_name_witness:
  "entries init (obj_name foo_fn) = None
   \<and> fst (register init foo_fn PyNone) = Inr foo_fn
   \<and> entries (snd (register init foo_fn PyNone)) ''foo'' = Some foo_fn"
proof -
  have h: "entries init (obj_name foo_fn) = None" by (simp add: init_def)
  have n: "obj_name foo_fn = ''foo''" by (simp add: obj_name_def hasattr_name_def foo_fn_def)
  show ?thesis using h register_fresh_name [OF h] by (simp add: n)
qed

text \<open>
  Claim C1 as stated, for every object and so in every registry, fails where the name
  is taken: with \<^verbatim>\<open>"foo"\<close> registered as \<open>42\<close>, registering a function named
  \<^verbatim>\<open>foo\<close> raises the collision error, returns nothing, and the lookup still yields \<open>42\<close>.
\<close>

theorem register_taken_name_counterexample:
  "obj_name foo_fn = ''foo''
   \<and> fst (register reg_foo foo_fn PyNone) = Inl (RuntimeError ''Encountered a name collision \"foo\"'')
   \<and> fst (register reg_foo foo_fn PyNone) \<noteq> Inr foo_fn
   \<and> entries (snd (register reg_foo foo_fn PyNone)) ''foo'' = Some (PyInt 42)
   \<and> entries (snd (register reg_foo foo_fn PyNone)) ''foo'' \<noteq> Some foo_fn"
  by (simp add: register_def register_name_def obj_name_def hasattr_name_def foo_fn_def
      reg_foo_def collision_msg_def)

text \<open>
  Claim C2. In every state where \<open>n\<close> is a key of \<open>entries\<close>, holding \<open>obj1\<close>,
  \<^verbatim>\<open>register_name(n, obj2, info)\<close> raises the name collision for any \<open>obj2\<close> and any
  \<open>info\<close>, and leaves the whole state as it was: \<open>obj2\<close> is not stored and \<open>n\<close> still
  yields \<open>obj1\<close>.
\<close>

theorem register_name_collision:
  assumes "entries s n = Some obj1"
  shows "fst (register_name s n obj2 info) = Inl (RuntimeError (collision_msg n))
       \<and> snd (register_name s n obj2 info) = s
       \<and> entries (snd (register_name s n obj2 info)) n = Some obj1"
  using assms by (simp add: register_name_def)

theorem register_name_collision_witness:
  "entries reg_foo ''foo'' = Some (PyInt 42)
   \<and> fst (register_name reg_foo ''foo'' (PyInt 43) PyNone)
       = Inl (RuntimeError ''Encountered a name collision \"foo\"'')
   \<and> entries (snd (register_name reg_foo ''foo'' (PyInt 43) PyNone)) ''foo'' = Some (PyInt 42)"
proof -
  have h: "entries reg_foo ''foo'' = Some (PyInt 42)" by (simp add: reg_foo_def)
  show ?thesis using h register_name_collision [OF h, of "PyInt 43" PyNone]
    by (simp add: collision_msg_def)
qed

text \<open>
  Claim C3, amended. In every state, applying \<^verbatim>\<open>register_with_info(k=v)\<close> to \<open>obj\<close>
  gives the same result and the same state as \<^verbatim>\<open>register(obj, info={"k": v})\<close>. When
  the derived name of \<open>obj\<close> is not yet a key of \<open>entries\<close>, the call returns \<open>obj\<close>,
  stores it under its name, and \<^verbatim>\<open>get_info\<close> of that name then returns the dictionary
  made from the keyword argument, whose content is \<^verbatim>\<open>{"k": v}\<close>. The second part needs
  the condition on the name: see the counterexample below.
\<close>

theorem register_with_info_same_as_register:
  "(case register_with_info s [(k, v)] of (dec, s1) \<Rightarrow> dec s1 obj)
     = (case new_dict s [PyStr k \<mapsto> v] of (info, s1) \<Rightarrow> register s1 obj info)
   \<and> (entries s (obj_name obj) = None \<longrightarrow>
        (let (res, s2) = (case register_with_info s [(k, v)] of (dec, s1) \<Rightarrow> dec s1 obj) in
           res = Inr obj
         \<and> entries s2 (obj_name obj) = Some obj
         \<and> fst (get_info s2 (obj_name obj)) = Inr (PyDict (length (store s)))
         \<and> dict_at (snd (get_info s2 (obj_name obj))) (length (store s)) = Some [PyStr k \<mapsto> v]))"
proof -
  let ?s1 = "s\<lparr>store := store s @ [kwargs_dict [(k, v)]]\<rparr>"
  let ?a = "length (store s)"
  have eq: "(case register_with_info s [(k, v)] of (dec, s1) \<Rightarrow> dec s1 obj)
            = (case new_dict s [PyStr k \<mapsto> v] of (info, s1) \<Rightarrow> register s1 obj info)"
    by (simp add: register_with_info_apply new_dict_def kwargs_dict_single)
  have stored: "(let (res, s2) = (case register_with_info s [(k, v)] of (dec, s1) \<Rightarrow> dec s1 obj) in
           res = Inr obj
         \<and> entries s2 (obj_name obj) = Some obj
         \<and> fst (get_info s2 (obj_name obj)) = Inr (PyDict ?a)
         \<and> dict_at (snd (get_info s2 (obj_name obj))) ?a = Some [PyStr k \<mapsto> v])"
    if free: "entries s (obj_name obj) = None"
  proof -
    let ?s2 = "?s1\<lparr>entries := (entries ?s1)(obj_name obj \<mapsto> obj),
                    information := (information ?s1)(obj_name obj \<mapsto> PyDict ?a)\<rparr>"
    have "entries ?s1 (obj_name obj) = None" using free by simp
    then have reg: "register ?s1 obj (PyDict ?a) = (Inr obj, ?s2)"
      by (rule register_dict_fresh)
    have gi: "get_info ?s2 (obj_name obj) = (Inr (PyDict ?a), ?s2\<lparr>store := store ?s2 @ [Map.empty]\<rparr>)"
      by (rule get_info_recorded) simp_all
    have d: "dict_at (?s2\<lparr>store := store ?s2 @ [Map.empty]\<rparr>) ?a = Some [PyStr k \<mapsto> v]"
      by (simp add: dict_at_def nth_append kwargs_dict_single)
    show ?thesis
      unfolding register_with_info_apply reg
      by (simp only: Let_def prod.case gi fst_conv snd_conv d) simp
  qed
  from eq stored show ?thesis by blast
qed

theorem register_with_info_same_as_register_witness:
  "entries init (obj_name foo_fn) = None
   \<and> (case register_with_info init [(''priority'', PyInt 1)] of (dec, s1) \<Rightarrow> dec s1 foo_fn)
     = (case new_dict init [PyStr ''priority'' \<mapsto> PyInt 1] of (info, s1) \<Rightarrow> register s1 foo_fn info)
   \<and> (let (res, s2) = (case register_with_info init [(''priority'', PyInt 1)] of (dec, s1) \<Rightarrow> dec s1 foo_fn) in
           res = Inr foo_fn
         \<and> entries s2 (obj_name foo_fn) = Some foo_fn
         \<and> fst (get_info s2 (obj_name foo_fn)) = Inr (PyDict (length (store init)))
         \<and> dict_at (snd (get_info s2 (obj_name foo_fn))) (length (store init))
             = Some [PyStr ''priority'' \<mapsto> PyInt 1])"
proof -
  have h: "entries init (obj_name foo_fn) = None" by (simp add: init_def)
  show ?thesis
    using h register_with_info_same_as_register
      [where s = init and k = "''priority''" and v = "PyInt 1" and obj = foo_fn]
    by blast
qed

text \<open>
  Claim C3 as stated, for every object and so in every registry, fails where the name
  is taken: with \<^verbatim>\<open>"foo"\<close> registered as \<open>42\<close>, applying
  \<^verbatim>\<open>register_with_info(priority=1)\<close> to a function named \<^verbatim>\<open>foo\<close> raises the collision
  error, the function is not stored, and \<^verbatim>\<open>get_info("foo")\<close> is an empty dictionary,
  not \<^verbatim>\<open>{"priority": 1}\<close>.
\<close>

theorem register_with_info_taken_name_counterexample:
  "obj_name foo_fn = ''foo''
   \<and> fst (case register_with_info reg_foo [(''priority'', PyInt 1)] of (dec, s1) \<Rightarrow> dec s1 foo_fn)
       = Inl (RuntimeError ''Encountered a name collision \"foo\"'')
   \<and> entries (snd (case register_with_info reg_foo [(''priority'', PyInt 1)] of (dec, s1) \<Rightarrow> dec s1 foo_fn)) ''foo''
       \<noteq> Some foo_fn
   \<and> fst (get_info (snd (case register_with_info reg_foo [(''priority'', PyInt 1)] of (dec, s1) \<Rightarrow> dec s1 foo_fn)) ''foo'')
       = Inr (PyDict 1)
   \<and> dict_at (snd (get_info (snd (case register_with_info reg_foo [(''priority'', PyInt 1)] of (dec, s1) \<Rightarrow> dec s1 foo_fn)) ''foo'')) 1
       = Some Map.empty"
  by (simp add: register_with_info_def new_dict_def register_def register_name_def obj_name_def
      hasattr_name_def foo_fn_def reg_foo_def collision_msg_def get_info_def dict_at_def kwargs_dict_def)

text \<open>
  Claim C5, amended. For every name \<open>n\<close> that is not a key of \<open>entries\<close> and every
  supplied \<open>info\<close> (not \<^verbatim>\<open>None\<close>) that is not a dictionary,
  \<^verbatim>\<open>register_name(n, obj, info)\<close> fails with the \<open>AssertionError\<close> of
  \<^verbatim>\<open>assert isinstance(info, dict)\<close>, and \<open>information\<close> and the dictionaries in the
  store are left as they were. Nothing is said here about \<open>entries\<close>: see the
  counterexample below.
\<close>

theorem register_name_bad_info:
  assumes "entries s n = None" and "info \<noteq> PyNone" and "\<not> isinstance_dict info"
  shows "fst (register_name s n obj info) = Inl AssertionError
       \<and> information (snd (register_name s n obj info)) = information s
       \<and> store (snd (register_name s n obj info)) = store s"
  using assms by (simp add: register_name_def)

theorem register_name_bad_info_witness:
  "entries init ''foo'' = None \<and> PyStr ''fast'' \<noteq> PyNone \<and> \<not> isinstance_dict (PyStr ''fast'')
   \<and> fst (register_name init ''foo'' (PyInt 42) (PyStr ''fast'')) = Inl AssertionError
   \<and> information (snd (register_name init ''foo'' (PyInt 42) (PyStr ''fast''))) = information init"
proof -
  have h1: "entries init ''foo'' = None" by (simp add: init_def)
  have h2: "PyStr ''fast'' \<noteq> PyNone" by simp
  have h3: "\<not> isinstance_dict (PyStr ''fast'')" by simp
  show ?thesis
    using h1 h2 h3 register_name_bad_info [OF h1 h2 h3, of "PyInt 42"] by simp
qed

text \<open>
  Claim C5 as stated says that the failing call leaves \<open>entries\<close> unchanged. It does
  not: \<^verbatim>\<open>self[name] = obj\<close> runs before the assertion, so on the empty registry
  \<^verbatim>\<open>register_name("foo", 42, info="fast")\<close> raises with \<open>42\<close> already stored under
  \<^verbatim>\<open>"foo"\<close>.
\<close>

theorem register_name_bad_info_counterexample:
  "entries init ''foo'' = None
   \<and> \<not> isinstance_dict (PyStr ''fast'')
   \<and> fst (register_name init ''foo'' (PyInt 42) (PyStr ''fast'')) = Inl AssertionError
   \<and> entries (snd (register_name init ''foo'' (PyInt 42) (PyStr ''fast''))) ''foo'' = Some (PyInt 42)
   \<and> entries (snd (register_name init ''foo'' (PyInt 42) (PyStr ''fast''))) \<noteq> entries init"
proof -
  have "entries (snd (register_name init ''foo'' (PyInt 42) (PyStr ''fast''))) ''foo'' = Some (PyInt 42)"
    by (simp add: register_name_def init_def)
  moreover have "entries init ''foo'' = None" by (simp add: init_def)
  ultimately have "entries (snd (register_name init ''foo'' (PyInt 42) (PyStr ''fast''))) \<noteq> entries init"
    by (metis option.distinct(1))
  then show ?thesis by (simp add: register_name_def init_def)
qed

text \<open>
  Claim C9, amended. Two distinct objects \<open>o1\<close> and \<open>o2\<close> without a \<^verbatim>\<open>__name__\<close>
  attribute and of the same class both derive the name of that class. In a registry
  where that name is not yet a key of \<open>entries\<close>, \<^verbatim>\<open>register(o1)\<close> succeeds and
  \<^verbatim>\<open>register(o2)\<close> then raises the name collision, leaving \<open>o1\<close> stored under the name.
  The condition on the registry is needed: see the counterexample below.
\<close>

theorem register_same_class:
  assumes "getattr_name o1 = None" and "getattr_name o2 = None"
    and "class_name o1 = class_name o2" and "o1 \<noteq> o2"
    and "entries s (class_name o1) = None"
  shows "obj_name o1 = class_name o1 \<and> obj_name o2 = class_name o1
       \<and> fst (register s o1 PyNone) = Inr o1
       \<and> fst (register (snd (register s o1 PyNone)) o2 PyNone)
           = Inl (RuntimeError (collision_msg (class_name o1)))
       \<and> entries (snd (register (snd (register s o1 PyNone)) o2 PyNone)) (class_name o1) = Some o1
       \<and> entries (snd (register (snd (register s o1 PyNone)) o2 PyNone)) (class_name o1) \<noteq> Some o2"
proof -
  have n1: "obj_name o1 = class_name o1" and n2: "obj_name o2 = class_name o1"
    using assms(1-3) by (simp_all add: obj_name_def hasattr_name_def)
  let ?s1 = "s\<lparr>entries := (entries s)(class_name o1 \<mapsto> o1)\<rparr>"
  have r1: "register s o1 PyNone = (Inr o1, ?s1)"
    using assms(5) by (simp add: register_def register_name_def n1 Let_def)
  have r2: "register ?s1 o2 PyNone = (Inl (RuntimeError (collision_msg (class_name o1))), ?s1)"
    by (simp add: register_def register_name_def n2 Let_def)
  show ?thesis using assms(4) by (simp add: n1 n2 r1 r2)
qed

theorem register_same_class_witness:
  "getattr_name opt1 = None \<and> getattr_name opt2 = None \<and> class_name opt1 = class_name opt2
   \<and> opt1 \<noteq> opt2 \<and> entries init (class_name opt1) = None
   \<and> fst (register init opt1 PyNone) = Inr opt1
   \<and> fst (register (snd (register init opt1 PyNone)) opt2 PyNone)
       = Inl (RuntimeError ''Encountered a name collision \"Optimizer\"'')
   \<and> entries (snd (register (snd (register init opt1 PyNone)) opt2 PyNone)) ''Optimizer'' = Some opt1"
proof -
  have h1: "getattr_name opt1 = None" and h2: "getattr_name opt2 = None"
    and h3: "class_name opt1 = class_name opt2" and h4: "opt1 \<noteq> opt2"
    and h5: "entries init (class_name opt1) = None"
    by (simp_all add: opt1_def opt2_def init_def)
  have c: "class_name opt1 = ''Optimizer''" by (simp add: opt1_def)
  show ?thesis
    using h1 h2 h3 h4 h5 register_same_class [OF h1 h2 h3 h4 h5]
    by (simp add: c collision_msg_def)
qed

text \<open>
  Claim C9 as stated, for any two such objects and so in every registry, fails where
  the class name is taken: with \<^verbatim>\<open>"Optimizer"\<close> already registered,
  \<^verbatim>\<open>register(o1)\<close> does not succeed, it raises the name collision itself.
\<close>

theorem register_same_class_taken_counterexample:
  "getattr_name opt1 = None \<and> getattr_name opt2 = None \<and> class_name opt1 = class_name opt2
   \<and> opt1 \<noteq> opt2
   \<and> fst (register reg_opt opt1 PyNone) = Inl (RuntimeError ''Encountered a name collision \"Optimizer\"'')
   \<and> fst (register reg_opt opt1 PyNone) \<noteq> Inr opt1
   \<and> snd (register reg_opt opt1 PyNone) = reg_opt"
  by (simp add: register_def register_name_def obj_name_def hasattr_name_def opt1_def opt2_def
      reg_opt_def collision_msg_def)

text \<open>
  Claim C10. For every name \<open>n\<close> that is not a key of \<open>entries\<close>,
  \<^verbatim>\<open>register_name(n, obj)\<close> with \<open>info\<close> left at \<^verbatim>\<open>None\<close> succeeds, adds \<open>n\<close> to
  \<open>entries\<close> and leaves \<open>information\<close> exactly as it was (and the store of
  dictionaries too).
\<close>

theorem register_name_no_info:
  assumes "entries s n = None"
  shows "fst (register_name s n obj PyNone) = Inr ()
       \<and> information (snd (register_name s n obj PyNone)) = information s
       \<and> entries (snd (register_name s n obj PyNone)) = (entries s)(n \<mapsto> obj)
       \<and> store (snd (register_name s n obj PyNone)) = store s"
  using assms by (simp add: register_name_def)

theorem register_name_no_info_witness:
  "entries init ''foo'' = None
   \<and> fst (register_name init ''foo'' (PyInt 42) PyNone) = Inr ()
   \<and> information (snd (register_name init ''foo'' (PyInt 42) PyNone)) = information init
   \<and> entries (snd (register_name init ''foo'' (PyInt 42) PyNone)) ''foo'' = Some (PyInt 42)"
proof -
  have h: "entries init ''foo'' = None" by (simp add: init_def)
  show ?thesis using h register_name_no_info [OF h, of "PyInt 42"] by simp
qed

subsection \<open>Metadata\<close>




text \<open>
  Claim C6. For every name \<open>n\<close> that is not a key of \<open>entries\<close>, \<^verbatim>\<open>get_info(n)\<close>
  raises the \<open>ValueError\<close> saying that \<open>n\<close> is not registered, and the state
  (\<open>entries\<close>, \<open>information\<close> and the store) is what it was before the call.
\<close>

theorem get_info_unregistered:
  assumes "entries s n = None"
  shows "fst (get_info s n) = Inl (ValueError (not_registered_msg n))
       \<and> snd (get_info s n) = s"
  using assms by (simp add: get_info_def)

theorem get_info_unregistered_witness:
  "entries reg_foo ''bar'' = None
   \<and> fst (get_info reg_foo ''bar'') = Inl (ValueError ''\"bar\" is not registered.'')
   \<and> snd (get_info reg_foo ''bar'') = reg_foo"
proof -
  have h: "entries reg_foo ''bar'' = None" by (simp add: reg_foo_def)
  show ?thesis using h get_info_unregistered [OF h] by (simp add: not_registered_msg_def)
qed

subsection \<open>Unregistering\<close>

text \<open>
  Claim C7. In every state and for every name \<open>n\<close>, \<^verbatim>\<open>unregister(n)\<close> returns without
  raising. Afterwards \<open>n\<close> is not a key of \<open>entries\<close> and every other key is as before;
  when \<open>n\<close> was not a key, the state is unchanged. A second \<^verbatim>\<open>unregister(n)\<close> right
  after the first returns without raising and changes nothing, so on an unknown name
  both calls change nothing.
\<close>

theorem unregister_total:
  "fst (unregister s n) = Inr ()
   \<and> entries (snd (unregister s n)) = (entries s)(n := None)
   \<and> (entries s n = None \<longrightarrow> snd (unregister s n) = s)
   \<and> unregister (snd (unregister s n)) n = (Inr (), snd (unregister s n))"
  by (auto simp add: unregister_def)

theorem unregister_total_witness:
  "entries reg_foo ''bar'' = None
   \<and> unregister reg_foo ''bar'' = (Inr (), reg_foo)
   \<and> unregister (snd (unregister reg_foo ''bar'')) ''bar'' = (Inr (), reg_foo)
   \<and> fst (unregister reg_foo ''foo'') = Inr ()
   \<and> entries (snd (unregister reg_foo ''foo'')) ''foo'' = None
   \<and> unregister (snd (unregister reg_foo ''foo'')) ''foo'' = (Inr (), snd (unregister reg_foo ''foo''))"
proof -
  have h: "entries reg_foo ''bar'' = None" by (simp add: reg_foo_def)
  have absent: "snd (unregister reg_foo ''bar'') = reg_foo"
    using unregister_total [of reg_foo "''bar''"] h by blast
  show ?thesis
    using h absent unregister_total [of reg_foo "''bar''"] unregister_total [of reg_foo "''foo''"]
    by (simp add: prod_eq_iff)
qed

text \<open>
  Claim C8. In every state and for every name \<open>n\<close>, \<^verbatim>\<open>unregister(n)\<close> leaves
  \<open>information\<close> and the dictionaries it refers to exactly as they were: metadata
  attached to \<open>n\<close> stays in \<open>information\<close> after \<open>n\<close> has left \<open>entries\<close>.
\<close>

theorem unregister_keeps_information:
  "information (snd (unregister s n)) = information s
   \<and> store (snd (unregister s n)) = store s
   \<and> dict_at (snd (unregister s n)) a = dict_at s a"
  by (simp add: unregister_def dict_at_def)

text \<open>
  An instance: after \<^verbatim>\<open>register_name("foo", 42, info={"priority": 1})\<close> and then
  \<^verbatim>\<open>unregister("foo")\<close>, the name is gone from \<open>entries\<close> and its metadata is still
  there.
\<close>

theorem unregister_keeps_information_witness:
  "entries (snd (unregister reg_info ''foo'')) ''foo'' = None
   \<and> information (snd (unregister reg_info ''foo'')) ''foo'' = Some (PyDict 0)
   \<and> dict_at (snd (unregister reg_info ''foo'')) 0 = Some [PyStr ''priority'' \<mapsto> PyInt 1]"
proof -
  have e: "entries (snd (unregister reg_info ''foo'')) ''foo'' = None"
    by (simp add: unregister_def reg_info_def)
  have i: "information reg_info ''foo'' = Some (PyDict 0)"
    and d: "dict_at reg_info 0 = Some [PyStr ''priority'' \<mapsto> PyInt 1]"
    by (simp_all add: reg_info_def dict_at_def)
  show ?thesis
    using e i d unregister_keeps_information [of reg_info "''foo''" 0] by simp
qed

text \<open>
  The record that stays behind is found again by a later registration of the same name
  that passes no \<open>info\<close>: after \<^verbatim>\<open>unregister("foo")\<close> and
  \<^verbatim>\<open>register_name("foo", 43)\<close>, \<^verbatim>\<open>get_info("foo")\<close> returns the dictionary supplied with
  the first registration.
\<close>

lemma record_survives_reregistration:
  "entries (run reg_info [Unregister ''foo'', RegisterName ''foo'' (PyInt 43) PyNone]) ''foo''
     = Some (PyInt 43)
   \<and> fst (get_info (run reg_info [Unregister ''foo'', RegisterName ''foo'' (PyInt 43) PyNone]) ''foo'')
     = Inr (PyDict 0)
   \<and> dict_at (snd (get_info (run reg_info [Unregister ''foo'', RegisterName ''foo'' (PyInt 43) PyNone]) ''foo'')) 0
     = Some [PyStr ''priority'' \<mapsto> PyInt 1]"
  by (simp add: run_def unregister_def register_name_def get_info_def new_dict_def dict_at_def
      reg_info_def)

end
